theory Spec2Isabelle
  imports Main "HOL-Library.Word"
begin

section \<open>C values\<close>

text \<open>
  The glue layer is C. A C \<open>int\<close> and a C \<open>unsigned int\<close> are 32-bit words: equality of
  words is equality bit for bit, \<open>sint\<close> is the signed reading and \<open>uint\<close> the unsigned
  one. A pointer value (\<open>void *\<close>, \<open>int *\<close>, \<open>xvid_dec_stats_t *\<close>) is an address; the
  null pointer is address 0.
\<close>

type_synonym c_int = "32 word"
type_synonym c_uint = "32 word"
type_synonym addr = nat

definition NULL :: addr where
  "NULL = 0"

section \<open>The records of goxvid.h\<close>

text \<open>\<^verbatim>\<open>typedef struct { int general; int time_base; int time_increment;
  int * qscale; int qscale_stride; } vop_t;\<close>\<close>

record vop_t =
  general :: c_int
  time_base :: c_int
  time_increment :: c_int
  qscale :: addr
  qscale_stride :: c_int

text \<open>\<^verbatim>\<open>typedef struct { int general; int width; int height; int par;
  int par_width; int par_height; } vol_t;\<close>\<close>

record vol_t =
  general :: c_int
  width :: c_int
  height :: c_int
  par :: c_int
  par_width :: c_int
  par_height :: c_int

section \<open>The decoder statistics structure\<close>

text \<open>
  \<open>xvid_dec_stats_t\<close> is declared by the native library's header \<open>xvid.h\<close>, which is
  not among the sources. The code reaches it only through the paths
  \<open>stats->data.vop.f\<close> and \<open>stats->data.vol.f\<close>.
\<close>

text \<open>
  Modelled from the spec: the frame arm of the statistics structure. Its members are
  those that \<open>vop_data\<close> reads through \<open>stats->data.vop\<close>, with the types of the
  \<open>vop_t\<close> members they initialise.
\<close>

record xvid_vop =
  general :: c_int
  time_base :: c_int
  time_increment :: c_int
  qscale :: addr
  qscale_stride :: c_int

text \<open>
  Modelled from the spec: the stream arm of the statistics structure. Its members are
  those that \<open>vol_data\<close> reads through \<open>stats->data.vol\<close>, with the types of the
  \<open>vol_t\<close> members they initialise.
\<close>

record xvid_vol =
  general :: c_int
  width :: c_int
  height :: c_int
  par :: c_int
  par_width :: c_int
  par_height :: c_int

text \<open>
  Modelled from the spec: the member \<open>data\<close>, a C union of the two structures. Both lie
  over the same bytes; the union is modelled by the two readings of those bytes, \<open>vop\<close>
  (what \<open>data.vop\<close> reads) and \<open>vol\<close> (what \<open>data.vol\<close> reads). Which pairs of
  readings can occur together is fixed by the byte layout of the platform and is not
  part of the model: every theorem below holds for all pairs, hence for those a platform
  allows.
\<close>

record xvid_data =
  vop :: xvid_vop
  vol :: xvid_vol

text \<open>
  Modelled from the spec: the statistics blob is a tagged union; \<open>type\<close> is the tag that
  tells a frame blob from a stream blob. No function of the glue layer reads it.
\<close>

record xvid_dec_stats_t =
  type :: c_int
  data :: xvid_data

section \<open>Memory and execution\<close>

text \<open>
  The memory holds the statistics structures and the \<open>int\<close> objects (the quantizer
  tables) that are alive, by address. Element \<open>i\<close> of an \<open>int\<close> array at \<open>q\<close> is the
  object at \<open>q + i\<close>.
\<close>

record mem =
  stats_mem :: "addr \<rightharpoonup> xvid_dec_stats_t"
  int_mem :: "addr \<rightharpoonup> c_int"

text \<open>
  Reading through a pointer that is null or refers to no live object is undefined
  behaviour in C; the model makes it a fault.
\<close>

datatype fault = Invalid_Read addr

text \<open>A C function body: from a state to a result or a fault, and the state it leaves.\<close>

type_synonym ('s, 'a) exec = "'s \<Rightarrow> (fault + 'a) \<times> 's"

definition return_x :: "'a \<Rightarrow> ('s, 'a) exec" where
  "return_x a s = (Inr a, s)"

definition bind_x :: "('s, 'a) exec \<Rightarrow> ('a \<Rightarrow> ('s, 'b) exec) \<Rightarrow> ('s, 'b) exec" where
  "bind_x m f s = (case m s of (Inl e, s') \<Rightarrow> (Inl e, s') | (Inr a, s') \<Rightarrow> f a s')"

text \<open>\<open>stats->path\<close>: one read of a member of the structure \<open>stats\<close> points to.\<close>

definition load_stats :: "(xvid_dec_stats_t \<Rightarrow> 'a) \<Rightarrow> addr \<Rightarrow> (mem, 'a) exec" where
  "load_stats path stats m =
     (case (if stats = NULL then None else stats_mem m stats) of
        None \<Rightarrow> (Inl (Invalid_Read stats), m)
      | Some s \<Rightarrow> (Inr (path s), m))"

text \<open>\<open>q[0] .. q[n-1]\<close>, as the memory holds them (\<open>None\<close> where no object is alive).\<close>

definition read_ints :: "mem \<Rightarrow> addr \<Rightarrow> nat \<Rightarrow> c_int option list" where
  "read_ints m q n = map (\<lambda>i. int_mem m (q + i)) [0..<n]"

section \<open>The statistics extractors of goxvid.c\<close>

text \<open>
  \<^verbatim>\<open>vop_t vop_data(xvid_dec_stats_t *stats) {
    return (vop_t) { .general = stats->data.vop.general,
      .time_base = stats->data.vop.time_base,
      .time_increment = stats->data.vop.time_increment,
      .qscale = stats->data.vop.qscale,
      .qscale_stride = stats->data.vop.qscale_stride }; }\<close>
\<close>

definition vop_data :: "addr \<Rightarrow> (mem, vop_t) exec" where
  "vop_data stats =
     bind_x (load_stats (\<lambda>s. xvid_vop.general (vop (data s))) stats) (\<lambda>g.
     bind_x (load_stats (\<lambda>s. xvid_vop.time_base (vop (data s))) stats) (\<lambda>tb.
     bind_x (load_stats (\<lambda>s. xvid_vop.time_increment (vop (data s))) stats) (\<lambda>ti.
     bind_x (load_stats (\<lambda>s. xvid_vop.qscale (vop (data s))) stats) (\<lambda>q.
     bind_x (load_stats (\<lambda>s. xvid_vop.qscale_stride (vop (data s))) stats) (\<lambda>qs.
     return_x \<lparr>vop_t.general = g, vop_t.time_base = tb, vop_t.time_increment = ti,
               vop_t.qscale = q, vop_t.qscale_stride = qs\<rparr>)))))"

text \<open>
  \<^verbatim>\<open>vol_t vol_data(xvid_dec_stats_t *stats) {
    return (vol_t) { .general = stats->data.vol.general,
      .width = stats->data.vol.width, .height = stats->data.vol.height,
      .par = stats->data.vol.par, .par_width = stats->data.vol.par_width,
      .par_height = stats->data.vol.par_height }; }\<close>
\<close>

definition vol_data :: "addr \<Rightarrow> (mem, vol_t) exec" where
  "vol_data stats =
     bind_x (load_stats (\<lambda>s. xvid_vol.general (vol (data s))) stats) (\<lambda>g.
     bind_x (load_stats (\<lambda>s. xvid_vol.width (vol (data s))) stats) (\<lambda>w.
     bind_x (load_stats (\<lambda>s. xvid_vol.height (vol (data s))) stats) (\<lambda>h.
     bind_x (load_stats (\<lambda>s. xvid_vol.par (vol (data s))) stats) (\<lambda>p.
     bind_x (load_stats (\<lambda>s. xvid_vol.par_width (vol (data s))) stats) (\<lambda>pw.
     bind_x (load_stats (\<lambda>s. xvid_vol.par_height (vol (data s))) stats) (\<lambda>ph.
     return_x \<lparr>vol_t.general = g, vol_t.width = w, vol_t.height = h,
               vol_t.par = p, vol_t.par_width = pw, vol_t.par_height = ph\<rparr>))))))"

section \<open>The flag constants of goxvid.c\<close>

text \<open>
  The three constants are initialised from macros of the native header \<open>xvid.h\<close>,
  which is not among the sources. The comment of goxvid.h gives the value of the macros:
  \<open>1<<31\<close>, an expression of type \<open>int\<close>, that is the 32-bit pattern with only the
  sign bit set.
\<close>

text \<open>Modelled from the spec: the native macro \<open>XVID_CPU_FORCE\<close>, \<open>1<<31\<close>.\<close>

definition XVID_CPU_FORCE :: c_int where
  "XVID_CPU_FORCE = push_bit 31 1"

text \<open>Modelled from the spec: the native macro \<open>XVID_DEBUG_DEBUG\<close>, \<open>1<<31\<close>.\<close>

definition XVID_DEBUG_DEBUG :: c_int where
  "XVID_DEBUG_DEBUG = push_bit 31 1"

text \<open>Modelled from the spec: the native macro \<open>XVID_CSP_VFLIP\<close>, \<open>1<<31\<close>.\<close>

definition XVID_CSP_VFLIP :: c_int where
  "XVID_CSP_VFLIP = push_bit 31 1"

text \<open>
  Initialising an \<open>unsigned int\<close> from an \<open>int\<close> converts the signed value modulo
  \<open>2 ^ 32\<close>.
\<close>

definition int_to_uint :: "c_int \<Rightarrow> c_uint" where
  "int_to_uint x = word_of_int (sint x mod 2 ^ 32)"

text \<open>\<^verbatim>\<open>const unsigned int CPU_FORCE = XVID_CPU_FORCE;\<close>\<close>

definition CPU_FORCE :: c_uint where
  "CPU_FORCE = int_to_uint XVID_CPU_FORCE"

text \<open>\<^verbatim>\<open>const unsigned int DEBUG_DEBUG = XVID_DEBUG_DEBUG;\<close>\<close>

definition DEBUG_DEBUG :: c_uint where
  "DEBUG_DEBUG = int_to_uint XVID_DEBUG_DEBUG"

text \<open>\<^verbatim>\<open>const unsigned int CSP_VFLIP = XVID_CSP_VFLIP;\<close>\<close>

definition CSP_VFLIP :: c_uint where
  "CSP_VFLIP = int_to_uint XVID_CSP_VFLIP"

section \<open>The callback trampoline of goxvid.c\<close>

text \<open>
  \<open>pluginCallback\<close> is an external function: the trampoline declares it and the linker
  binds it to the host's handler. The handler is a parameter of the model. It receives
  the four arguments and may do anything to the world \<open>'w\<close> it runs in (the memory,
  the host's own state), or fault.
\<close>

type_synonym 'w handler = "addr \<Rightarrow> c_int \<Rightarrow> addr \<Rightarrow> addr \<Rightarrow> ('w, c_int) exec"

text \<open>
  The state of a run of the trampoline: the calls of \<open>pluginCallback\<close> made so far, with
  their arguments, and the world the handler acts on.
\<close>

datatype call = Call addr c_int addr addr

record 'w tstate =
  calls :: "call list"
  world :: 'w

text \<open>The C call \<open>pluginCallback(a, b, c, d)\<close>: it is recorded, and the handler runs.\<close>

definition call_pluginCallback ::
  "'w handler \<Rightarrow> addr \<Rightarrow> c_int \<Rightarrow> addr \<Rightarrow> addr \<Rightarrow> ('w tstate, c_int) exec" where
  "call_pluginCallback H a b c d s =
     (case H a b c d (world s) of
        (r, w') \<Rightarrow> (r, \<lparr>calls = calls s @ [Call a b c d], world = w'\<rparr>))"

text \<open>
  \<^verbatim>\<open>int pluginCallback_cgo(void * handle, int opt, void * param1, void * param2) {
    int pluginCallback(void*, int, void*, void*);
    return pluginCallback(handle, opt, param1, param2); }\<close>
\<close>

definition pluginCallback_cgo ::
  "'w handler \<Rightarrow> addr \<Rightarrow> c_int \<Rightarrow> addr \<Rightarrow> addr \<Rightarrow> ('w tstate, c_int) exec" where
  "pluginCallback_cgo H handle opt param1 param2 =
     call_pluginCallback H handle opt param1 param2"

section \<open>Concrete scenarios\<close>

text \<open>
  A frame blob with \<open>general = 3\<close>, \<open>time_base = 25\<close>, \<open>time_increment = 1\<close>,
  \<open>qscale_stride = 11\<close> and a quantizer table at address 4096; its stream reading is
  unrelated data. The tag 1 stands for a frame type.
\<close>

definition frame_blob :: xvid_dec_stats_t where
  "frame_blob =
     \<lparr>type = 1,
      data = \<lparr>vop = \<lparr>xvid_vop.general = 3, xvid_vop.time_base = 25,
                      xvid_vop.time_increment = 1, xvid_vop.qscale = 4096,
                      xvid_vop.qscale_stride = 11\<rparr>,
              vol = \<lparr>xvid_vol.general = 3, xvid_vol.width = 25, xvid_vol.height = 1,
                      xvid_vol.par = 0, xvid_vol.par_width = 4096,
                      xvid_vol.par_height = 0\<rparr>\<rparr>\<rparr>"

text \<open>
  A stream blob: 640 by 480, custom pixel aspect ratio 16:11, tag \<open>-1\<close>. Its frame
  reading is what a 64-bit little-endian platform makes of those bytes: the width as
  \<open>time_base\<close>, the height as \<open>time_increment\<close>, and \<open>par_width\<close> and \<open>par_height\<close>
  together as the pointer \<open>16 + 11 * 2 ^ 32\<close>.
\<close>

definition stream_blob :: xvid_dec_stats_t where
  "stream_blob =
     \<lparr>type = - 1,
      data = \<lparr>vop = \<lparr>xvid_vop.general = 0, xvid_vop.time_base = 640,
                      xvid_vop.time_increment = 480, xvid_vop.qscale = 47244640272,
                      xvid_vop.qscale_stride = 0\<rparr>,
              vol = \<lparr>xvid_vol.general = 0, xvid_vol.width = 640, xvid_vol.height = 480,
                      xvid_vol.par = 15, xvid_vol.par_width = 16,
                      xvid_vol.par_height = 11\<rparr>\<rparr>\<rparr>"

text \<open>
  A memory with the frame blob at address 64, the stream blob at address 128 and the 22
  elements of the quantizer table at 4096 .. 4117 (element \<open>i\<close> holds \<open>i\<close>).
\<close>

definition scenario_mem :: mem where
  "scenario_mem =
     \<lparr>stats_mem = [64 \<mapsto> frame_blob, 128 \<mapsto> stream_blob],
      int_mem = (\<lambda>a. if 4096 \<le> a \<and> a < 4118 then Some (of_nat (a - 4096)) else None)\<rparr>"

text \<open>
  A blob with the frame reading of the frame blob, the stream reading of the stream blob
  and another tag.
\<close>

definition mixed_blob :: xvid_dec_stats_t where
  "mixed_blob = \<lparr>type = 7, data = \<lparr>vop = vop (data frame_blob), vol = vol (data stream_blob)\<rparr>\<rparr>"

text \<open>A frame blob for which the decoder gave no quantizer table: \<open>qscale\<close> is null.\<close>

definition bare_blob :: xvid_dec_stats_t where
  "bare_blob =
     \<lparr>type = 1,
      data = \<lparr>vop = \<lparr>xvid_vop.general = 3, xvid_vop.time_base = 25,
                      xvid_vop.time_increment = 2, xvid_vop.qscale = NULL,
                      xvid_vop.qscale_stride = 0\<rparr>,
              vol = \<lparr>xvid_vol.general = 3, xvid_vol.width = 25, xvid_vol.height = 2,
                      xvid_vol.par = 0, xvid_vol.par_width = 0,
                      xvid_vol.par_height = 0\<rparr>\<rparr>\<rparr>"

text \<open>
  Another memory: the frame blob at address 200, the mixed blob at address 300, the
  blob without quantizer table at address 400, and no \<open>int\<close> object.
\<close>

definition moved_mem :: mem where
  "moved_mem =
     \<lparr>stats_mem = [200 \<mapsto> frame_blob, 300 \<mapsto> mixed_blob, 400 \<mapsto> bare_blob],
      int_mem = Map.empty\<rparr>"

text \<open>A memory in which no object is alive: every read through a pointer faults.\<close>

definition empty_mem :: mem where
  "empty_mem = \<lparr>stats_mem = Map.empty, int_mem = Map.empty\<rparr>"

text \<open>The handler \<open>H(h, o, p1, p2) = 42\<close>, which touches nothing.\<close>

definition handler_42 :: "'w handler" where
  "handler_42 = (\<lambda>h opt p1 p2. return_x 42)"

text \<open>
  A handler that reads the \<open>int\<close> its first parameter points to and returns it: it
  faults on a pointer to no live object.
\<close>

definition handler_deref :: "mem handler" where
  "handler_deref h opt p1 p2 m =
     (case (if p1 = NULL then None else int_mem m p1) of
        None \<Rightarrow> (Inl (Invalid_Read p1), m)
      | Some v \<Rightarrow> (Inr v, m))"

section \<open>Properties of the extractors\<close>

lemma load_stats_live:
  "stats \<noteq> NULL \<Longrightarrow> stats_mem m stats = Some s \<Longrightarrow> load_stats path stats m = (Inr (path s), m)"
  by (simp add: load_stats_def)

lemma load_stats_state: "snd (load_stats path stats m) = m"
  by (simp add: load_stats_def split: option.split)

lemma vop_data_live:
  assumes "stats \<noteq> NULL" and "stats_mem m stats = Some s"
  shows "vop_data stats m =
    (Inr \<lparr>vop_t.general = xvid_vop.general (vop (data s)),
          vop_t.time_base = xvid_vop.time_base (vop (data s)),
          vop_t.time_increment = xvid_vop.time_increment (vop (data s)),
          vop_t.qscale = xvid_vop.qscale (vop (data s)),
          vop_t.qscale_stride = xvid_vop.qscale_stride (vop (data s))\<rparr>, m)"
  using assms by (simp add: vop_data_def bind_x_def return_x_def load_stats_live)

lemma vol_data_live:
  assumes "stats \<noteq> NULL" and "stats_mem m stats = Some s"
  shows "vol_data stats m =
    (Inr \<lparr>vol_t.general = xvid_vol.general (vol (data s)),
          vol_t.width = xvid_vol.width (vol (data s)),
          vol_t.height = xvid_vol.height (vol (data s)),
          vol_t.par = xvid_vol.par (vol (data s)),
          vol_t.par_width = xvid_vol.par_width (vol (data s)),
          vol_t.par_height = xvid_vol.par_height (vol (data s))\<rparr>, m)"
  using assms by (simp add: vol_data_def bind_x_def return_x_def load_stats_live)

lemma load_stats_dead:
  "stats = NULL \<or> stats_mem m stats = None \<Longrightarrow>
   load_stats path stats m = (Inl (Invalid_Read stats), m)"
  by (auto simp add: load_stats_def)

lemma return_x_state: "snd (return_x a s) = s"
  by (simp add: return_x_def)

lemma bind_x_state:
  assumes "\<And>s. snd (m s) = s" and "\<And>a s. snd (f a s) = s"
  shows "snd (bind_x m f s) = s"
proof (cases "m s")
  case (Pair r s')
  with assms(1) [of s] have "s' = s" by simp
  with Pair assms(2) show ?thesis
    by (cases r) (simp_all add: bind_x_def)
qed

lemma vop_data_state: "snd (vop_data stats m) = m"
  unfolding vop_data_def
  by (intro bind_x_state load_stats_state return_x_state)

lemma vol_data_state: "snd (vol_data stats m) = m"
  unfolding vol_data_def
  by (intro bind_x_state load_stats_state return_x_state)

lemma vop_data_dead:
  "stats = NULL \<or> stats_mem m stats = None \<Longrightarrow> vop_data stats m = (Inl (Invalid_Read stats), m)"
  by (simp add: vop_data_def bind_x_def load_stats_dead)

lemma vop_data_int_mem:
  "fst (vop_data stats (m\<lparr>int_mem := im\<rparr>)) = fst (vop_data stats m)"
proof (cases "stats = NULL \<or> stats_mem m stats = None")
  case True
  then have "stats = NULL \<or> stats_mem (m\<lparr>int_mem := im\<rparr>) stats = None" by simp
  then show ?thesis using True by (simp only: vop_data_dead fst_conv)
next
  case False
  then obtain b where "stats \<noteq> NULL" "stats_mem m stats = Some b" by auto
  then show ?thesis by (simp add: vop_data_live)
qed

lemma int_to_uint_same: "int_to_uint x = x"
proof -
  have "sint x mod 2 ^ 32 = take_bit LENGTH(32) (sint x)"
    by (simp add: take_bit_eq_mod)
  moreover have "(word_of_int (take_bit LENGTH(32) (sint x)) :: 32 word) = word_of_int (sint x)"
    by (rule bit_word_eqI) (auto simp add: bit_simps)
  ultimately show ?thesis
    by (simp add: int_to_uint_def)
qed

section \<open>The claims\<close>

text \<open>
  C1. For every valid frame blob (a live statistics structure \<open>b\<close> at a non-null
  address), \<open>vop_data\<close> returns a record: its \<open>general\<close>, \<open>time_base\<close>,
  \<open>time_increment\<close> and \<open>qscale_stride\<close> are the same words as in the frame arm of the
  blob, and its \<open>qscale\<close> is the same pointer as the blob's, so that it designates the
  same elements, whatever their number \<open>n\<close>.
\<close>

theorem vop_data_reproduces_frame:
  assumes "stats \<noteq> NULL" and "stats_mem m stats = Some b"
  shows "\<exists>r. fst (vop_data stats m) = Inr r
    \<and> vop_t.general r = xvid_vop.general (vop (data b))
    \<and> vop_t.time_base r = xvid_vop.time_base (vop (data b))
    \<and> vop_t.time_increment r = xvid_vop.time_increment (vop (data b))
    \<and> vop_t.qscale_stride r = xvid_vop.qscale_stride (vop (data b))
    \<and> vop_t.qscale r = xvid_vop.qscale (vop (data b))
    \<and> read_ints m (vop_t.qscale r) n = read_ints m (xvid_vop.qscale (vop (data b))) n"
  using assms by (simp add: vop_data_live)

text \<open>
  The scenario of the specification: \<open>general = 3\<close>, \<open>time_base = 25\<close>,
  \<open>time_increment = 1\<close>, \<open>qscale_stride = 11\<close> and a table of 22 elements.
\<close>

theorem vop_data_reproduces_frame_witness:
  "(64 :: addr) \<noteq> NULL \<and> stats_mem scenario_mem 64 = Some frame_blob
   \<and> (\<exists>r. fst (vop_data 64 scenario_mem) = Inr r
      \<and> vop_t.general r = 3 \<and> vop_t.time_base r = 25 \<and> vop_t.time_increment r = 1
      \<and> vop_t.qscale_stride r = 11 \<and> vop_t.qscale r = 4096
      \<and> read_ints scenario_mem (vop_t.qscale r) 22 = read_ints scenario_mem 4096 22)"
proof -
  have live: "(64 :: addr) \<noteq> NULL" "stats_mem scenario_mem 64 = Some frame_blob"
    by (simp_all add: NULL_def scenario_mem_def)
  from vop_data_reproduces_frame [OF live, of 22] show ?thesis
    using live by (simp add: frame_blob_def)
qed

text \<open>
  C2. For every valid stream blob (a live statistics structure \<open>b\<close> at a non-null
  address), \<open>vol_data\<close> returns a record whose six members are the same words as in
  the stream arm of the blob. The record type \<open>vol_t\<close> has no pointer member, and the
  record does not depend on the \<open>int\<close> objects of the memory: it is the same for any
  content \<open>im\<close> of that part of the memory.
\<close>

theorem vol_data_reproduces_stream:
  assumes "stats \<noteq> NULL" and "stats_mem m stats = Some b"
  shows "\<exists>r. fst (vol_data stats m) = Inr r
    \<and> vol_t.general r = xvid_vol.general (vol (data b))
    \<and> vol_t.width r = xvid_vol.width (vol (data b))
    \<and> vol_t.height r = xvid_vol.height (vol (data b))
    \<and> vol_t.par r = xvid_vol.par (vol (data b))
    \<and> vol_t.par_width r = xvid_vol.par_width (vol (data b))
    \<and> vol_t.par_height r = xvid_vol.par_height (vol (data b))
    \<and> fst (vol_data stats (m\<lparr>int_mem := im\<rparr>)) = Inr r"
  using assms by (simp add: vol_data_live)

theorem vol_data_reproduces_stream_witness:
  "(128 :: addr) \<noteq> NULL \<and> stats_mem scenario_mem 128 = Some stream_blob
   \<and> (\<exists>r. fst (vol_data 128 scenario_mem) = Inr r
      \<and> vol_t.general r = 0 \<and> vol_t.width r = 640 \<and> vol_t.height r = 480
      \<and> vol_t.par r = 15 \<and> vol_t.par_width r = 16 \<and> vol_t.par_height r = 11
      \<and> fst (vol_data 128 (scenario_mem\<lparr>int_mem := Map.empty\<rparr>)) = Inr r)"
proof -
  have live: "(128 :: addr) \<noteq> NULL" "stats_mem scenario_mem 128 = Some stream_blob"
    by (simp_all add: NULL_def scenario_mem_def)
  from vol_data_reproduces_stream [OF live, of Map.empty] show ?thesis
    using live by (simp add: stream_blob_def)
qed

text \<open>
  C3. For every handler \<open>H\<close> and all arguments, one run of the trampoline makes exactly
  one call of the handler, recorded after the earlier ones with the four arguments
  unchanged and in order; the trampoline returns what that call returns (or faults as it
  faults) and leaves the world as the handler leaves it.
\<close>

theorem trampoline_pass_through:
  "pluginCallback_cgo H handle opt param1 param2 s =
     (fst (H handle opt param1 param2 (world s)),
      \<lparr>calls = calls s @ [Call handle opt param1 param2],
       world = snd (H handle opt param1 param2 (world s))\<rparr>)"
  by (simp add: pluginCallback_cgo_def call_pluginCallback_def split: prod.split)

text \<open>
  A handler that reads the \<open>int\<close> at its first parameter, run on element 4 of the
  quantizer table.
\<close>

theorem trampoline_pass_through_witness:
  "pluginCallback_cgo handler_deref 1 7 4100 NULL \<lparr>calls = [], world = scenario_mem\<rparr> =
     (Inr 4, \<lparr>calls = [Call 1 7 4100 NULL], world = scenario_mem\<rparr>)"
  using trampoline_pass_through [of handler_deref 1 7 4100 NULL "\<lparr>calls = [], world = scenario_mem\<rparr>"]
  by (simp add: handler_deref_def scenario_mem_def NULL_def)

text \<open>
  C4. Each of \<open>CPU_FORCE\<close>, \<open>DEBUG_DEBUG\<close> and \<open>CSP_VFLIP\<close> is an unsigned 32-bit word
  with the bits of the native macro it is initialised from (the conversion from \<open>int\<close>
  to \<open>unsigned int\<close> keeps every bit pattern). The macros being \<open>1<<31\<close>, the signed
  reading of each is \<open>- 2 ^ 31\<close>, and the unsigned reading of each constant is the
  positive value \<open>2 ^ 31\<close>, within the range of the type.
\<close>

theorem bridged_constants_unsigned:
  "int_to_uint x = x
   \<and> CPU_FORCE = XVID_CPU_FORCE \<and> DEBUG_DEBUG = XVID_DEBUG_DEBUG \<and> CSP_VFLIP = XVID_CSP_VFLIP
   \<and> uint CPU_FORCE = 2 ^ 31 \<and> uint DEBUG_DEBUG = 2 ^ 31 \<and> uint CSP_VFLIP = 2 ^ 31
   \<and> sint XVID_CPU_FORCE = - (2 ^ 31) \<and> sint XVID_DEBUG_DEBUG = - (2 ^ 31)
   \<and> sint XVID_CSP_VFLIP = - (2 ^ 31)"
  by (simp add: CPU_FORCE_def DEBUG_DEBUG_def CSP_VFLIP_def int_to_uint_same
      XVID_CPU_FORCE_def XVID_DEBUG_DEBUG_def XVID_CSP_VFLIP_def)

text \<open>
  C5. For every non-null pointer to a live blob \<open>b\<close> and whatever the tag \<open>t\<close> of the
  blob, \<open>vop_data\<close> returns the record of the frame reading of the union and
  \<open>vol_data\<close> the record of the stream reading: neither reads the tag, neither faults
  or reports an error. On a blob that holds stream data, \<open>vop_data\<close> thus returns
  whatever the frame reading of those bytes is.
\<close>

theorem extractors_no_tag_check:
  assumes "stats \<noteq> NULL"
  shows "vop_data stats (m\<lparr>stats_mem := (stats_mem m)(stats \<mapsto> b\<lparr>type := t\<rparr>)\<rparr>) =
      (Inr \<lparr>vop_t.general = xvid_vop.general (vop (data b)),
            vop_t.time_base = xvid_vop.time_base (vop (data b)),
            vop_t.time_increment = xvid_vop.time_increment (vop (data b)),
            vop_t.qscale = xvid_vop.qscale (vop (data b)),
            vop_t.qscale_stride = xvid_vop.qscale_stride (vop (data b))\<rparr>,
       m\<lparr>stats_mem := (stats_mem m)(stats \<mapsto> b\<lparr>type := t\<rparr>)\<rparr>)
    \<and> vol_data stats (m\<lparr>stats_mem := (stats_mem m)(stats \<mapsto> b\<lparr>type := t\<rparr>)\<rparr>) =
      (Inr \<lparr>vol_t.general = xvid_vol.general (vol (data b)),
            vol_t.width = xvid_vol.width (vol (data b)),
            vol_t.height = xvid_vol.height (vol (data b)),
            vol_t.par = xvid_vol.par (vol (data b)),
            vol_t.par_width = xvid_vol.par_width (vol (data b)),
            vol_t.par_height = xvid_vol.par_height (vol (data b))\<rparr>,
       m\<lparr>stats_mem := (stats_mem m)(stats \<mapsto> b\<lparr>type := t\<rparr>)\<rparr>)"
proof -
  let ?m = "m\<lparr>stats_mem := (stats_mem m)(stats \<mapsto> b\<lparr>type := t\<rparr>)\<rparr>"
  have live: "stats_mem ?m stats = Some (b\<lparr>type := t\<rparr>)" by simp
  show ?thesis
    using vop_data_live [OF assms live] vol_data_live [OF assms live] by simp
qed

text \<open>
  Both extractors on the stream blob, whose tag is \<open>-1\<close>: \<open>vop_data\<close> returns the
  frame reading of the stream data, with a \<open>qscale\<close> that points nowhere.
\<close>

theorem extractors_no_tag_check_witness:
  "(128 :: addr) \<noteq> NULL
   \<and> scenario_mem\<lparr>stats_mem := (stats_mem scenario_mem)(128 \<mapsto> stream_blob\<lparr>type := - 1\<rparr>)\<rparr> = scenario_mem
   \<and> vop_data 128 scenario_mem =
      (Inr \<lparr>vop_t.general = 0, vop_t.time_base = 640, vop_t.time_increment = 480,
            vop_t.qscale = 47244640272, vop_t.qscale_stride = 0\<rparr>, scenario_mem)
   \<and> vol_data 128 scenario_mem =
      (Inr \<lparr>vol_t.general = 0, vol_t.width = 640, vol_t.height = 480,
            vol_t.par = 15, vol_t.par_width = 16, vol_t.par_height = 11\<rparr>, scenario_mem)"
proof -
  have nn: "(128 :: addr) \<noteq> NULL" by (simp add: NULL_def)
  have same: "scenario_mem\<lparr>stats_mem := (stats_mem scenario_mem)(128 \<mapsto> stream_blob\<lparr>type := - 1\<rparr>)\<rparr> = scenario_mem"
    by (simp add: scenario_mem_def stream_blob_def)
  from extractors_no_tag_check [OF nn, where m = scenario_mem and b = stream_blob and t = "- 1"] show ?thesis
    unfolding same using nn same by (simp add: stream_blob_def)
qed

text \<open>
  C7. The extractors only read: called with any pointer \<open>p\<close> in any memory \<open>mm\<close>, they
  leave the whole memory as it was (the blob, its union and the quantizer table). Two
  calls on live blobs with equal contents, in any two memories and at any two addresses,
  return equal records, and so do two calls in a row on the same blob.
\<close>

theorem extractors_pure:
  assumes "stats \<noteq> NULL" and "stats' \<noteq> NULL"
    and "stats_mem m stats = Some b" and "stats_mem m' stats' = Some b"
  shows "snd (vop_data p mm) = mm \<and> snd (vol_data p mm) = mm
    \<and> fst (vop_data stats m) = fst (vop_data stats' m')
    \<and> fst (vol_data stats m) = fst (vol_data stats' m')
    \<and> bind_x (vop_data stats) (\<lambda>r1. bind_x (vop_data stats) (\<lambda>r2. return_x (r1 = r2))) m
        = (Inr True, m)
    \<and> bind_x (vol_data stats) (\<lambda>r1. bind_x (vol_data stats) (\<lambda>r2. return_x (r1 = r2))) m
        = (Inr True, m)"
proof -
  have "fst (vop_data stats m) = fst (vop_data stats' m')"
    using assms by (simp add: vop_data_live)
  moreover have "fst (vol_data stats m) = fst (vol_data stats' m')"
    using assms by (simp add: vol_data_live)
  moreover have "bind_x (vop_data stats) (\<lambda>r1. bind_x (vop_data stats) (\<lambda>r2. return_x (r1 = r2))) m
      = (Inr True, m)"
    using assms(1,3) by (simp add: bind_x_def return_x_def vop_data_live)
  moreover have "bind_x (vol_data stats) (\<lambda>r1. bind_x (vol_data stats) (\<lambda>r2. return_x (r1 = r2))) m
      = (Inr True, m)"
    using assms(1,3) by (simp add: bind_x_def return_x_def vol_data_live)
  ultimately show ?thesis
    by (simp add: vop_data_state vol_data_state)
qed

theorem extractors_pure_witness:
  "(64 :: addr) \<noteq> NULL \<and> (200 :: addr) \<noteq> NULL
   \<and> stats_mem scenario_mem 64 = Some frame_blob \<and> stats_mem moved_mem 200 = Some frame_blob
   \<and> snd (vop_data 64 scenario_mem) = scenario_mem
   \<and> snd (vol_data 64 scenario_mem) = scenario_mem
   \<and> fst (vop_data 64 scenario_mem) = fst (vop_data 200 moved_mem)
   \<and> fst (vol_data 64 scenario_mem) = fst (vol_data 200 moved_mem)"
proof -
  have live: "(64 :: addr) \<noteq> NULL" "(200 :: addr) \<noteq> NULL"
    "stats_mem scenario_mem 64 = Some frame_blob" "stats_mem moved_mem 200 = Some frame_blob"
    by (simp_all add: NULL_def scenario_mem_def moved_mem_def)
  from extractors_pure [OF live, of 64 scenario_mem] show ?thesis
    using live by simp
qed

text \<open>
  C8. The trampoline does nothing with \<open>param1\<close> and \<open>param2\<close> but hand them to the
  handler: its result is the handler's result, so it faults only where the handler does.
  With a handler that touches nothing, it returns the handler's value in the memory
  where no object is alive, for all parameters, null or not; in that memory a handler
  that does read through \<open>param1\<close> faults.
\<close>

theorem trampoline_params_opaque:
  "fst (pluginCallback_cgo H handle opt param1 param2 \<lparr>calls = cs, world = w\<rparr>)
     = fst (H handle opt param1 param2 w)
   \<and> pluginCallback_cgo (\<lambda>h opt p1 p2. return_x (f h opt p1 p2)) handle opt param1 param2
       \<lparr>calls = cs, world = empty_mem\<rparr>
     = (Inr (f handle opt param1 param2),
        \<lparr>calls = cs @ [Call handle opt param1 param2], world = empty_mem\<rparr>)
   \<and> pluginCallback_cgo handler_deref handle opt param1 param2 \<lparr>calls = cs, world = empty_mem\<rparr>
     = (Inl (Invalid_Read param1),
        \<lparr>calls = cs @ [Call handle opt param1 param2], world = empty_mem\<rparr>)"
  by (simp add: pluginCallback_cgo_def call_pluginCallback_def return_x_def
      handler_deref_def empty_mem_def split: prod.split)

text \<open>
  The scenario of the specification: the handler \<open>H(h, o, p1, p2) = 42\<close>, called through
  the trampoline with \<open>(0x1, 7, null, null)\<close>.
\<close>

theorem trampoline_params_opaque_witness:
  "pluginCallback_cgo handler_42 1 7 NULL NULL \<lparr>calls = [], world = empty_mem\<rparr>
     = (Inr 42, \<lparr>calls = [Call 1 7 NULL NULL], world = empty_mem\<rparr>)"
  using trampoline_params_opaque [where f = "\<lambda>h opt p1 p2. 42" and handle = 1 and opt = 7
      and ?param1.0 = NULL and ?param2.0 = NULL and cs = "[]"
      and H = handler_deref and w = empty_mem]
  unfolding handler_42_def by simp

text \<open>
  C9. On two live blobs, in any two memories, whose six stream members are pairwise equal,
  \<open>vol_data\<close> returns the same record, whatever their tags and their frame members;
  and on two live blobs whose five frame members are pairwise equal, \<open>vop_data\<close> returns
  the same record, whatever their tags and their stream members.
\<close>

theorem extractors_depend_on_own_arm:
  assumes "stats \<noteq> NULL" and "stats' \<noteq> NULL"
    and "stats_mem m stats = Some b" and "stats_mem m' stats' = Some b'"
  shows "(xvid_vol.general (vol (data b)) = xvid_vol.general (vol (data b'))
      \<and> xvid_vol.width (vol (data b)) = xvid_vol.width (vol (data b'))
      \<and> xvid_vol.height (vol (data b)) = xvid_vol.height (vol (data b'))
      \<and> xvid_vol.par (vol (data b)) = xvid_vol.par (vol (data b'))
      \<and> xvid_vol.par_width (vol (data b)) = xvid_vol.par_width (vol (data b'))
      \<and> xvid_vol.par_height (vol (data b)) = xvid_vol.par_height (vol (data b'))
      \<longrightarrow> fst (vol_data stats m) = fst (vol_data stats' m'))
    \<and> (xvid_vop.general (vop (data b)) = xvid_vop.general (vop (data b'))
      \<and> xvid_vop.time_base (vop (data b)) = xvid_vop.time_base (vop (data b'))
      \<and> xvid_vop.time_increment (vop (data b)) = xvid_vop.time_increment (vop (data b'))
      \<and> xvid_vop.qscale (vop (data b)) = xvid_vop.qscale (vop (data b'))
      \<and> xvid_vop.qscale_stride (vop (data b)) = xvid_vop.qscale_stride (vop (data b'))
      \<longrightarrow> fst (vop_data stats m) = fst (vop_data stats' m'))"
  using assms by (simp add: vop_data_live vol_data_live)

text \<open>
  The mixed blob has the stream members of the stream blob and the frame members of the
  frame blob, and differs from each in the tag and in the other arm.
\<close>

theorem extractors_depend_on_own_arm_witness:
  "(128 :: addr) \<noteq> NULL \<and> (64 :: addr) \<noteq> NULL \<and> (300 :: addr) \<noteq> NULL
   \<and> stats_mem scenario_mem 128 = Some stream_blob
   \<and> stats_mem scenario_mem 64 = Some frame_blob
   \<and> stats_mem moved_mem 300 = Some mixed_blob
   \<and> type stream_blob \<noteq> type mixed_blob \<and> vop (data stream_blob) \<noteq> vop (data mixed_blob)
   \<and> type frame_blob \<noteq> type mixed_blob \<and> vol (data frame_blob) \<noteq> vol (data mixed_blob)
   \<and> fst (vol_data 128 scenario_mem) = fst (vol_data 300 moved_mem)
   \<and> fst (vop_data 64 scenario_mem) = fst (vop_data 300 moved_mem)"
proof -
  have live: "(128 :: addr) \<noteq> NULL" "(64 :: addr) \<noteq> NULL" "(300 :: addr) \<noteq> NULL"
    "stats_mem scenario_mem 128 = Some stream_blob"
    "stats_mem scenario_mem 64 = Some frame_blob"
    "stats_mem moved_mem 300 = Some mixed_blob"
    by (simp_all add: NULL_def scenario_mem_def moved_mem_def)
  have differ: "type stream_blob \<noteq> type mixed_blob" "vop (data stream_blob) \<noteq> vop (data mixed_blob)"
    "type frame_blob \<noteq> type mixed_blob" "vol (data frame_blob) \<noteq> vol (data mixed_blob)"
    by (simp_all add: stream_blob_def frame_blob_def mixed_blob_def)
  have "fst (vol_data 128 scenario_mem) = fst (vol_data 300 moved_mem)"
    using extractors_depend_on_own_arm [OF live(1) live(3) live(4) live(6)]
    by (simp add: mixed_blob_def)
  moreover have "fst (vop_data 64 scenario_mem) = fst (vop_data 300 moved_mem)"
    using extractors_depend_on_own_arm [OF live(2) live(3) live(5) live(6)]
    by (simp add: mixed_blob_def)
  ultimately show ?thesis
    using live differ by simp
qed

text \<open>
  C10. \<open>vop_data\<close> copies the \<open>qscale\<close> pointer and reads no element behind it: called
  with any pointer \<open>p\<close> in any memory \<open>mm\<close>, its result is the same for every content
  \<open>im\<close> of the \<open>int\<close> objects. On a live blob it returns a record with the blob's
  pointer even when no \<open>int\<close> object is alive, and a record with a null \<open>qscale\<close> when
  the blob's pointer is null.
\<close>

theorem vop_data_never_reads_qscale:
  assumes "stats \<noteq> NULL" and "stats_mem m stats = Some b"
  shows "fst (vop_data p (mm\<lparr>int_mem := im\<rparr>)) = fst (vop_data p mm)
    \<and> (\<exists>r. fst (vop_data stats (m\<lparr>int_mem := Map.empty\<rparr>)) = Inr r
         \<and> vop_t.qscale r = xvid_vop.qscale (vop (data b)))
    \<and> (xvid_vop.qscale (vop (data b)) = NULL \<longrightarrow>
         (\<exists>r. fst (vop_data stats m) = Inr r \<and> vop_t.qscale r = NULL))"
  using assms by (simp add: vop_data_int_mem vop_data_live)

text \<open>The blob without quantizer table, in a memory without \<open>int\<close> objects.\<close>

theorem vop_data_never_reads_qscale_witness:
  "(400 :: addr) \<noteq> NULL \<and> stats_mem moved_mem 400 = Some bare_blob
   \<and> xvid_vop.qscale (vop (data bare_blob)) = NULL
   \<and> int_mem moved_mem = Map.empty
   \<and> (\<exists>r. fst (vop_data 400 moved_mem) = Inr r \<and> vop_t.qscale r = NULL)"
proof -
  have live: "(400 :: addr) \<noteq> NULL" "stats_mem moved_mem 400 = Some bare_blob"
    by (simp_all add: NULL_def moved_mem_def)
  have null: "xvid_vop.qscale (vop (data bare_blob)) = NULL"
    by (simp add: bare_blob_def)
  have none: "int_mem moved_mem = Map.empty"
    by (simp add: moved_mem_def)
  from vop_data_never_reads_qscale [OF live] show ?thesis
    using live null none by simp
qed

end
